theory Spec2Isabelle
  imports Main "HOL-Library.Char_ord" "HOL-Library.List_Lexorder"
begin

section \<open>Python values\<close>

text \<open>
  The values that occur in \<^verbatim>\<open>main.py\<close>: strings, integers, lists and dictionaries.
  A dictionary keeps its keys in insertion order, so it is an association list.
\<close>

datatype pyval =
    PyStr string
  | PyInt int
  | PyList "pyval list"
  | PyDict "(string \<times> pyval) list"

text \<open>\<^verbatim>\<open>d[k]\<close> on a dictionary, \<open>None\<close> where the key is missing or the value is no dictionary.\<close>

fun field :: "string \<Rightarrow> pyval \<Rightarrow> pyval option" where
  "field k (PyDict kvs) = map_of kvs k"
| "field k _ = None"

section \<open>The four handlers\<close>

text \<open>
  Each handler is a function without parameters. A Python function can still read and
  write the state of its process, so the model passes that state explicitly: a handler
  takes the state \<open>w\<close> of the process before the call and returns its value together with
  the state after the call. No handler of \<^verbatim>\<open>main.py\<close> reads or assigns anything outside
  its own body, so each returns \<open>w\<close> as it got it.
\<close>

definition root :: "'w \<Rightarrow> pyval \<times> 'w" where
  "root w =
     (PyDict [(''message'', PyStr ''TX Analyzer API''), (''version'', PyStr ''1.0.0'')], w)"

definition health_check :: "'w \<Rightarrow> pyval \<times> 'w" where
  "health_check w =
     (PyDict [(''status'', PyStr ''healthy''), (''service'', PyStr ''tx-analyzer'')], w)"

definition analyze_transactions :: "'w \<Rightarrow> pyval \<times> 'w" where
  "analyze_transactions w =
     (PyDict
        [(''message'', PyStr ''Transaction analysis endpoint''),
         (''status'', PyStr ''not implemented''),
         (''features'',
            PyList
              [PyStr ''Anomaly detection'',
               PyStr ''Risk scoring'',
               PyStr ''Whale identification'',
               PyStr ''Pattern recognition''])], w)"

definition get_anomalies :: "'w \<Rightarrow> pyval \<times> 'w" where
  "get_anomalies w =
     (PyDict
        [(''anomalies'', PyList []),
         (''total'', PyInt 0),
         (''message'', PyStr ''No anomalies detected'')], w)"

datatype operation = Root | Health_check | Analyze_transactions | Get_anomalies

fun invoke :: "operation \<Rightarrow> 'w \<Rightarrow> pyval \<times> 'w" where
  "invoke Root w = root w"
| "invoke Health_check w = health_check w"
| "invoke Analyze_transactions w = analyze_transactions w"
| "invoke Get_anomalies w = get_anomalies w"

text \<open>A run of invocations, one after the other, each starting in the state the last one left.\<close>

fun invoke_all :: "operation list \<Rightarrow> 'w \<Rightarrow> pyval list \<times> 'w" where
  "invoke_all [] w = ([], w)"
| "invoke_all (c # cs) w =
     (let (v, w') = invoke c w; (vs, w'') = invoke_all cs w' in (v # vs, w''))"

section \<open>Startup\<close>

text \<open>
  \<^verbatim>\<open>port = int(os.getenv("PORT", 8002))\<close>, then
  \<^verbatim>\<open>uvicorn.run("main:app", host="0.0.0.0", port=port, reload=True)\<close>.
  The environment is a map from names to strings. A string of the environment may hold
  any character of Unicode, so it is a list of code points. \<^verbatim>\<open>os.getenv(key, default)\<close>
  gives the value of a name that is set, a string, and the default of a name that is not
  set, here an integer.
\<close>

type_synonym pystr = "nat list"

type_synonym environ = "string \<rightharpoonup> pystr"

definition codepoints :: "string \<Rightarrow> pystr" where
  "codepoints s = map of_char s"

datatype getenv_value = Str_value pystr | Int_value int

definition os_getenv :: "environ \<Rightarrow> string \<Rightarrow> int \<Rightarrow> getenv_value" where
  "os_getenv env key dflt = (case env key of None \<Rightarrow> Int_value dflt | Some v \<Rightarrow> Str_value v)"

datatype error = ValueError pystr

text \<open>
  The built-in \<^verbatim>\<open>int\<close> on a string, as CPython has it. A string with a character
  beyond ASCII is first brought to ASCII: code points below 127 stay, a white space of
  Unicode becomes a blank, a decimal digit of any script becomes the ASCII digit of its
  value, and at any other character the string is cut and ends in a question mark. The
  decimal digits of the scripts are a table of the Unicode database and not of this
  program: the table is the parameter \<open>td\<close>. The ASCII string is then read as a decimal
  literal: the white space of ASCII around it is dropped (tab to carriage return, and
  the blank), one sign may lead, single underscores may stand between two digits, and
  a literal of more than 4300 digits is refused.
\<close>

type_synonym decimals = "nat \<Rightarrow> nat option"

definition is_space :: "nat \<Rightarrow> bool" where
  "is_space c = ((9 \<le> c \<and> c \<le> 13) \<or> c = 32)"

definition is_unicode_space :: "nat \<Rightarrow> bool" where
  "is_unicode_space c =
     ((9 \<le> c \<and> c \<le> 13) \<or> (28 \<le> c \<and> c \<le> 32) \<or> c = 0x85 \<or> c = 0xA0 \<or> c = 0x1680 \<or>
      (0x2000 \<le> c \<and> c \<le> 0x200A) \<or> c = 0x2028 \<or> c = 0x2029 \<or> c = 0x202F \<or>
      c = 0x205F \<or> c = 0x3000)"

fun transform :: "decimals \<Rightarrow> pystr \<Rightarrow> pystr" where
  "transform td [] = []"
| "transform td (c # cs) =
     (if c < 127 then c # transform td cs
      else if is_unicode_space c then 32 # transform td cs
      else (case td c of None \<Rightarrow> [63] | Some d \<Rightarrow> (48 + d) # transform td cs))"

definition to_ascii :: "decimals \<Rightarrow> pystr \<Rightarrow> pystr" where
  "to_ascii td s = (if list_all (\<lambda>c. c < 128) s then s else transform td s)"

definition digit_val :: "nat \<Rightarrow> nat option" where
  "digit_val c = (if 48 \<le> c \<and> c \<le> 57 then Some (c - 48) else None)"

definition trim :: "pystr \<Rightarrow> pystr" where
  "trim s = rev (dropWhile is_space (rev (dropWhile is_space s)))"

text \<open>The digits after the first one; \<open>acc\<close> is the value read so far, 95 the underscore.\<close>

fun digits_from :: "nat \<Rightarrow> pystr \<Rightarrow> nat option" where
  "digits_from acc [] = Some acc"
| "digits_from acc [c] =
     (case digit_val c of None \<Rightarrow> None | Some v \<Rightarrow> Some (10 * acc + v))"
| "digits_from acc (c # d # ds) =
     (if c = 95
      then (case digit_val d of None \<Rightarrow> None | Some v \<Rightarrow> digits_from (10 * acc + v) ds)
      else (case digit_val c of None \<Rightarrow> None | Some v \<Rightarrow> digits_from (10 * acc + v) (d # ds)))"

definition unsigned_literal :: "pystr \<Rightarrow> nat option" where
  "unsigned_literal s =
     (case s of
        [] \<Rightarrow> None
      | c # cs \<Rightarrow>
          (case digit_val c of
             None \<Rightarrow> None
           | Some v \<Rightarrow>
               if length (filter (\<lambda>x. digit_val x \<noteq> None) s) > 4300 then None
               else digits_from v cs))"

text \<open>45 is the minus sign, 43 the plus sign.\<close>

definition int_of_str :: "decimals \<Rightarrow> pystr \<Rightarrow> int option" where
  "int_of_str td s =
     (case trim (to_ascii td s) of
        [] \<Rightarrow> None
      | c # cs \<Rightarrow>
          if c = 45 then map_option (\<lambda>n. - int n) (unsigned_literal cs)
          else if c = 43 then map_option int (unsigned_literal cs)
          else map_option int (unsigned_literal (c # cs)))"

text \<open>\<^verbatim>\<open>int(x)\<close>: an integer is returned as it is, a string is read.\<close>

fun py_int :: "decimals \<Rightarrow> getenv_value \<Rightarrow> error + int" where
  "py_int td (Int_value n) = Inr n"
| "py_int td (Str_value s) =
     (case int_of_str td s of None \<Rightarrow> Inl (ValueError s) | Some n \<Rightarrow> Inr n)"

text \<open>
  The arguments of the call of \<^verbatim>\<open>uvicorn.run\<close>: what \<^verbatim>\<open>main.py\<close> tells the server to
  bind to. The binding itself is the server's and the operating system's.
\<close>

record uvicorn_run =
  app_ref :: string
  host :: string
  port :: int
  reload :: bool

definition main :: "decimals \<Rightarrow> environ \<Rightarrow> error + uvicorn_run" where
  "main td env =
     (case py_int td (os_getenv env ''PORT'' 8002) of
        Inl e \<Rightarrow> Inl e
      | Inr p \<Rightarrow> Inr \<lparr>app_ref = ''main:app'', host = ''0.0.0.0'', port = p, reload = True\<rparr>)"

text \<open>
  For the statements: the value of a string of ASCII digits, four rows of the table of
  decimal digits (Arabic-Indic, extended Arabic-Indic, Devanagari and full-width), and
  the characters of ASCII that a literal with its white space can hold.
\<close>

definition is_digit :: "nat \<Rightarrow> bool" where
  "is_digit c = (48 \<le> c \<and> c \<le> 57)"

definition decimal_value :: "pystr \<Rightarrow> nat" where
  "decimal_value ds = foldl (\<lambda>a c. 10 * a + (c - 48)) 0 ds"

definition four_scripts :: decimals where
  "four_scripts c =
     (if 0x660 \<le> c \<and> c \<le> 0x669 then Some (c - 0x660)
      else if 0x6F0 \<le> c \<and> c \<le> 0x6F9 then Some (c - 0x6F0)
      else if 0x966 \<le> c \<and> c \<le> 0x96F then Some (c - 0x966)
      else if 0xFF10 \<le> c \<and> c \<le> 0xFF19 then Some (c - 0xFF10)
      else None)"

definition in_literal :: "nat \<Rightarrow> bool" where
  "in_literal c = (is_digit c \<or> is_space c \<or> c = 43 \<or> c = 45 \<or> c = 95)"

section \<open>Requests and responses\<close>

text \<open>
  A request as the server hands it to the application: the method, the path (already
  percent-decoded, without the query string) and the headers, their names in lower case.
  A response has a status, headers and a body. The documentation pages and the schema
  that the framework generates are kept as tokens. Of the headers of a response the
  model has the content type and those that the middleware sets; the length of the
  body, the \<^verbatim>\<open>allow\<close> header of a 405 and the \<^verbatim>\<open>location\<close> of a redirect are left out.
\<close>

record request =
  req_method :: string
  req_path :: string
  req_headers :: "(string \<times> string) list"

datatype generated = Openapi_schema | Swagger_ui_html | Swagger_ui_redirect | Redoc_html

datatype body = Json pyval | Text string | Page generated | Empty

record response =
  status :: nat
  headers :: "(string \<times> string) list"
  body :: body

definition get_header :: "string \<Rightarrow> (string \<times> string) list \<Rightarrow> string option" where
  "get_header k hs = map_of hs k"

text \<open>Assigning a header replaces its first occurrence, drops the others, or appends.\<close>

fun set_header :: "string \<Rightarrow> string \<Rightarrow> (string \<times> string) list \<Rightarrow> (string \<times> string) list" where
  "set_header k v [] = [(k, v)]"
| "set_header k v ((k', v') # hs) =
     (if k' = k then (k, v) # filter (\<lambda>kv. fst kv \<noteq> k) hs else (k', v') # set_header k v hs)"

definition update_headers ::
  "(string \<times> string) list \<Rightarrow> (string \<times> string) list \<Rightarrow> (string \<times> string) list" where
  "update_headers new hs = foldl (\<lambda>acc kv. set_header (fst kv) (snd kv) acc) hs new"

definition add_vary_header :: "string \<Rightarrow> (string \<times> string) list \<Rightarrow> (string \<times> string) list" where
  "add_vary_header v hs =
     (case get_header ''vary'' hs of
        None \<Rightarrow> set_header ''vary'' v hs
      | Some e \<Rightarrow> set_header ''vary'' (e @ '', '' @ v) hs)"

fun join_comma :: "string list \<Rightarrow> string" where
  "join_comma [] = []"
| "join_comma [x] = x"
| "join_comma (x # y # ys) = x @ '', '' @ join_comma (y # ys)"

definition JSONResponse :: "nat \<Rightarrow> body \<Rightarrow> response" where
  "JSONResponse code b =
     \<lparr>status = code, headers = [(''content-type'', ''application/json'')], body = b\<rparr>"

definition HTMLResponse :: "generated \<Rightarrow> response" where
  "HTMLResponse g =
     \<lparr>status = 200, headers = [(''content-type'', ''text/html; charset=utf-8'')], body = Page g\<rparr>"

definition PlainTextResponse :: "string \<Rightarrow> nat \<Rightarrow> (string \<times> string) list \<Rightarrow> response" where
  "PlainTextResponse txt code hs =
     \<lparr>status = code, headers = hs @ [(''content-type'', ''text/plain; charset=utf-8'')],
      body = Text txt\<rparr>"

definition RedirectResponse :: response where
  "RedirectResponse = \<lparr>status = 307, headers = [], body = Empty\<rparr>"

section \<open>The application object\<close>

text \<open>
  \<^verbatim>\<open>app = FastAPI(title=..., description=..., version="1.0.0", docs_url="/docs",
  redoc_url="/redoc")\<close>. The constructor is the framework's: besides storing its
  arguments it registers the routes of the generated documentation, for the schema
  (by default at \<^verbatim>\<open>/openapi.json\<close>), for the page at \<^verbatim>\<open>docs_url\<close> with its redirect
  page (by default at \<^verbatim>\<open>/docs/oauth2-redirect\<close>) and for the page at \<^verbatim>\<open>redoc_url\<close>.
  Such a route answers GET and HEAD. A route made by the decorator \<^verbatim>\<open>@app.get(path)\<close>
  answers GET only and calls the decorated handler.
\<close>

datatype endpoint = Handler operation | Docs generated

record route =
  route_path :: string
  methods :: "string list"
  endpoint :: endpoint

record cors_args =
  allow_origins :: "string list"
  allow_credentials :: bool
  allow_methods :: "string list"
  allow_headers :: "string list"

record fastapi =
  title :: string
  description :: string
  version :: string
  openapi_url :: "string option"
  docs_url :: "string option"
  redoc_url :: "string option"
  swagger_ui_oauth2_redirect_url :: "string option"
  user_middleware :: "cors_args list"
  routes :: "route list"

text \<open>Python's truth value of an optional string: \<^verbatim>\<open>None\<close> and the empty string are false.\<close>

fun truthy :: "string option \<Rightarrow> bool" where
  "truthy None = False"
| "truthy (Some u) = (u \<noteq> [])"

definition add_route :: "string option \<Rightarrow> generated \<Rightarrow> fastapi \<Rightarrow> fastapi" where
  "add_route url g a =
     (case url of
        None \<Rightarrow> a
      | Some u \<Rightarrow>
          a\<lparr>routes := routes a @
               [\<lparr>route_path = u, methods = [''GET'', ''HEAD''], endpoint = Docs g\<rparr>]\<rparr>)"

definition setup_docs :: "fastapi \<Rightarrow> fastapi" where
  "setup_docs a =
     (let a1 = (if truthy (openapi_url a) then add_route (openapi_url a) Openapi_schema a else a);
          a2 = (if truthy (openapi_url a) \<and> truthy (docs_url a)
                then (let b = add_route (docs_url a) Swagger_ui_html a1
                      in if truthy (swagger_ui_oauth2_redirect_url a)
                         then add_route (swagger_ui_oauth2_redirect_url a) Swagger_ui_redirect b
                         else b)
                else a1)
      in if truthy (openapi_url a) \<and> truthy (redoc_url a)
         then add_route (redoc_url a) Redoc_html a2
         else a2)"

definition FastAPI :: "string \<Rightarrow> string \<Rightarrow> string \<Rightarrow> string option \<Rightarrow> string option \<Rightarrow> fastapi" where
  "FastAPI t d v docs redoc =
     setup_docs \<lparr>title = t, description = d, version = v,
                 openapi_url = Some ''/openapi.json'', docs_url = docs, redoc_url = redoc,
                 swagger_ui_oauth2_redirect_url = Some ''/docs/oauth2-redirect'',
                 user_middleware = [], routes = []\<rparr>"

text \<open>\<^verbatim>\<open>app.add_middleware\<close> puts the new middleware in front: the last one added is outermost.\<close>

definition add_middleware :: "cors_args \<Rightarrow> fastapi \<Rightarrow> fastapi" where
  "add_middleware c a = a\<lparr>user_middleware := c # user_middleware a\<rparr>"

definition app_get :: "string \<Rightarrow> operation \<Rightarrow> fastapi \<Rightarrow> fastapi" where
  "app_get p h a =
     a\<lparr>routes := routes a @ [\<lparr>route_path = p, methods = [''GET''], endpoint = Handler h\<rparr>]\<rparr>"

definition CORSMiddleware :: cors_args where
  "CORSMiddleware =
     \<lparr>allow_origins = [''*''], allow_credentials = True,
      allow_methods = [''*''], allow_headers = [''*'']\<rparr>"

text \<open>The module, top to bottom.\<close>

definition app :: fastapi where
  "app =
     app_get ''/api/v1/anomalies'' Get_anomalies
       (app_get ''/api/v1/analyze'' Analyze_transactions
         (app_get ''/health'' Health_check
           (app_get ''/'' Root
             (add_middleware CORSMiddleware
               (FastAPI ''TX Analyzer''
                  ''AI-powered transaction analysis and anomaly detection service''
                  ''1.0.0'' (Some ''/docs'') (Some ''/redoc''))))))"

section \<open>Routing\<close>

text \<open>
  What the framework does with a request that reaches the router. A route whose path
  has no parameters is compiled to the regular expression \<^verbatim>\<open>^\<close> path \<^verbatim>\<open>$\<close>, and in
  Python \<^verbatim>\<open>$\<close> also matches before a final newline. A route matches in full when path
  and method fit, partially when only the path fits. The router takes the first full
  match, else the first partial one, which answers 405. Without any match, and if the
  path is not \<^verbatim>\<open>/\<close>, it looks at the path with its trailing slashes taken off, or with one
  added when there was none, and answers with a redirect (307) if a route matches that
  path in any way. All else is 404. A handler's value becomes the JSON body of a
  response with status 200, the decorators of \<^verbatim>\<open>main.py\<close> giving no other status.
\<close>

definition path_regex_match :: "string \<Rightarrow> string \<Rightarrow> bool" where
  "path_regex_match rp p = (p = rp \<or> p = rp @ [CHR 0x0A])"

datatype match = Match_NONE | Match_PARTIAL | Match_FULL

definition route_matches :: "route \<Rightarrow> string \<Rightarrow> string \<Rightarrow> match" where
  "route_matches r m p =
     (if path_regex_match (route_path r) p
      then (if methods r \<noteq> [] \<and> m \<notin> set (methods r) then Match_PARTIAL else Match_FULL)
      else Match_NONE)"

fun run_endpoint :: "endpoint \<Rightarrow> 'w \<Rightarrow> response \<times> 'w" where
  "run_endpoint (Handler h) w = (let (v, w') = invoke h w in (JSONResponse 200 (Json v), w'))"
| "run_endpoint (Docs Openapi_schema) w = (JSONResponse 200 (Page Openapi_schema), w)"
| "run_endpoint (Docs g) w = (HTMLResponse g, w)"

definition http_exception :: "nat \<Rightarrow> string \<Rightarrow> response" where
  "http_exception code detail = JSONResponse code (Json (PyDict [(''detail'', PyStr detail)]))"

definition route_handle :: "route \<Rightarrow> string \<Rightarrow> 'w \<Rightarrow> response \<times> 'w" where
  "route_handle r m w =
     (if methods r \<noteq> [] \<and> m \<notin> set (methods r)
      then (http_exception 405 ''Method Not Allowed'', w)
      else run_endpoint (endpoint r) w)"

text \<open>The loop over the routes; \<open>partial\<close> is the first partial match seen so far.\<close>

fun select_route :: "route list \<Rightarrow> string \<Rightarrow> string \<Rightarrow> route option \<Rightarrow> route option" where
  "select_route [] m p partial = partial"
| "select_route (r # rs) m p partial =
     (case route_matches r m p of
        Match_FULL \<Rightarrow> Some r
      | Match_PARTIAL \<Rightarrow> select_route rs m p (if partial = None then Some r else partial)
      | Match_NONE \<Rightarrow> select_route rs m p partial)"

definition rstrip_slash :: "string \<Rightarrow> string" where
  "rstrip_slash p = rev (dropWhile (\<lambda>c. c = CHR ''/'') (rev p))"

definition redirect_path :: "string \<Rightarrow> string" where
  "redirect_path p = (if p \<noteq> [] \<and> last p = CHR ''/'' then rstrip_slash p else p @ ''/'')"

definition router :: "route list \<Rightarrow> request \<Rightarrow> 'w \<Rightarrow> response \<times> 'w" where
  "router rs rq w =
     (case select_route rs (req_method rq) (req_path rq) None of
        Some r \<Rightarrow> route_handle r (req_method rq) w
      | None \<Rightarrow>
          if req_path rq \<noteq> ''/'' \<and>
             list_ex (\<lambda>r. route_matches r (req_method rq) (redirect_path (req_path rq)) \<noteq> Match_NONE) rs
          then (RedirectResponse, w)
          else (http_exception 404 ''Not Found'', w))"

section \<open>The CORS middleware\<close>

text \<open>
  \<^verbatim>\<open>app.add_middleware(CORSMiddleware, allow_origins=["*"], allow_credentials=True,
  allow_methods=["*"], allow_headers=["*"])\<close>. The middleware is the framework's; this is
  what it does with its arguments. A request without an \<^verbatim>\<open>Origin\<close> header goes to the
  application as it is, and so does the answer. A request with the method OPTIONS, an
  \<^verbatim>\<open>Origin\<close> and an \<^verbatim>\<open>Access-Control-Request-Method\<close> header is a preflight: the
  middleware answers it and the application never sees it. Any other request goes to the
  application, and the middleware puts its headers on the answer. The arguments not
  given in \<^verbatim>\<open>main.py\<close> have their defaults: no origin pattern, no exposed headers, a
  maximal age of 600.
\<close>

definition ALL_METHODS :: "string list" where
  "ALL_METHODS = [''DELETE'', ''GET'', ''HEAD'', ''OPTIONS'', ''PATCH'', ''POST'', ''PUT'']"

definition SAFELISTED_HEADERS :: "string list" where
  "SAFELISTED_HEADERS = [''Accept'', ''Accept-Language'', ''Content-Language'', ''Content-Type'']"

definition lower :: "string \<Rightarrow> string" where
  "lower s =
     map (\<lambda>c. let n = (of_char c :: nat) in if 65 \<le> n \<and> n \<le> 90 then char_of (n + 32) else c) s"

text \<open>\<^verbatim>\<open>s.strip()\<close> on a header value, whose characters are below 256.\<close>

definition isspace :: "char \<Rightarrow> bool" where
  "isspace c =
     (let n = (of_char c :: nat)
      in (9 \<le> n \<and> n \<le> 13) \<or> (28 \<le> n \<and> n \<le> 32) \<or> n = 0x85 \<or> n = 0xA0)"

definition strip :: "string \<Rightarrow> string" where
  "strip s = rev (dropWhile isspace (rev (dropWhile isspace s)))"

fun split_comma :: "string \<Rightarrow> string list" where
  "split_comma [] = [[]]"
| "split_comma (c # cs) =
     (if c = CHR '','' then [] # split_comma cs
      else (case split_comma cs of [] \<Rightarrow> [[c]] | x # xs \<Rightarrow> (c # x) # xs))"

definition cors_methods :: "cors_args \<Rightarrow> string list" where
  "cors_methods c = (if ''*'' \<in> set (allow_methods c) then ALL_METHODS else allow_methods c)"

definition allow_all_origins :: "cors_args \<Rightarrow> bool" where
  "allow_all_origins c = (''*'' \<in> set (allow_origins c))"

definition allow_all_headers :: "cors_args \<Rightarrow> bool" where
  "allow_all_headers c = (''*'' \<in> set (allow_headers c))"

definition preflight_explicit_allow_origin :: "cors_args \<Rightarrow> bool" where
  "preflight_explicit_allow_origin c = (\<not> allow_all_origins c \<or> allow_credentials c)"

definition cors_allow_headers :: "cors_args \<Rightarrow> string list" where
  "cors_allow_headers c = sort (remdups (SAFELISTED_HEADERS @ allow_headers c))"

definition simple_headers :: "cors_args \<Rightarrow> (string \<times> string) list" where
  "simple_headers c =
     (if allow_all_origins c then [(''access-control-allow-origin'', ''*'')] else []) @
     (if allow_credentials c then [(''access-control-allow-credentials'', ''true'')] else [])"

definition preflight_headers :: "cors_args \<Rightarrow> (string \<times> string) list" where
  "preflight_headers c =
     (if preflight_explicit_allow_origin c then [(''vary'', ''Origin'')]
      else [(''access-control-allow-origin'', ''*'')]) @
     [(''access-control-allow-methods'', join_comma (cors_methods c)),
      (''access-control-max-age'', ''600'')] @
     (if \<not> allow_all_headers c
      then [(''access-control-allow-headers'', join_comma (cors_allow_headers c))] else []) @
     (if allow_credentials c then [(''access-control-allow-credentials'', ''true'')] else [])"

definition is_allowed_origin :: "cors_args \<Rightarrow> string \<Rightarrow> bool" where
  "is_allowed_origin c origin = (allow_all_origins c \<or> origin \<in> set (allow_origins c))"

definition preflight_response :: "cors_args \<Rightarrow> string \<Rightarrow> string \<Rightarrow> string option \<Rightarrow> response" where
  "preflight_response c requested_origin requested_method requested_headers =
     (let h0 = preflight_headers c;
          h1 = (if is_allowed_origin c requested_origin \<and> preflight_explicit_allow_origin c
                then set_header ''access-control-allow-origin'' requested_origin h0 else h0);
          f_origin = (if is_allowed_origin c requested_origin then [] else [''origin'']);
          f_method = (if requested_method \<in> set (cors_methods c) then [] else [''method'']);
          h2 = (case requested_headers of
                  None \<Rightarrow> h1
                | Some rh \<Rightarrow>
                    if allow_all_headers c then set_header ''access-control-allow-headers'' rh h1
                    else h1);
          f_headers = (case requested_headers of
                  None \<Rightarrow> []
                | Some rh \<Rightarrow>
                    if allow_all_headers c then []
                    else if list_all (\<lambda>h. strip h \<in> set (map lower (cors_allow_headers c)))
                              (map lower (split_comma rh))
                         then [] else [''headers'']);
          failures = f_origin @ f_method @ f_headers
      in if failures \<noteq> []
         then PlainTextResponse (''Disallowed CORS '' @ join_comma failures) 400 h2
         else PlainTextResponse ''OK'' 200 h2)"

definition allow_explicit_origin :: "string \<Rightarrow> (string \<times> string) list \<Rightarrow> (string \<times> string) list" where
  "allow_explicit_origin origin hs =
     add_vary_header ''Origin'' (set_header ''access-control-allow-origin'' origin hs)"

definition simple_response ::
  "cors_args \<Rightarrow> (request \<Rightarrow> 'w \<Rightarrow> response \<times> 'w) \<Rightarrow> string \<Rightarrow> request \<Rightarrow> 'w \<Rightarrow> response \<times> 'w" where
  "simple_response c inner origin rq w =
     (let (r, w') = inner rq w;
          h0 = update_headers (simple_headers c) (headers r);
          has_cookie = (get_header ''cookie'' (req_headers rq) \<noteq> None);
          h1 = (if allow_all_origins c \<and> has_cookie then allow_explicit_origin origin h0
                else if \<not> allow_all_origins c \<and> is_allowed_origin c origin
                     then allow_explicit_origin origin h0
                     else h0)
      in (r\<lparr>headers := h1\<rparr>, w'))"

definition is_preflight :: "request \<Rightarrow> bool" where
  "is_preflight rq =
     (get_header ''origin'' (req_headers rq) \<noteq> None \<and> req_method rq = ''OPTIONS'' \<and>
      get_header ''access-control-request-method'' (req_headers rq) \<noteq> None)"

definition cors_call ::
  "cors_args \<Rightarrow> (request \<Rightarrow> 'w \<Rightarrow> response \<times> 'w) \<Rightarrow> request \<Rightarrow> 'w \<Rightarrow> response \<times> 'w" where
  "cors_call c inner rq w =
     (case get_header ''origin'' (req_headers rq) of
        None \<Rightarrow> inner rq w
      | Some origin \<Rightarrow>
          (case (if req_method rq = ''OPTIONS''
                 then get_header ''access-control-request-method'' (req_headers rq) else None) of
             Some m \<Rightarrow>
               (preflight_response c origin m
                  (get_header ''access-control-request-headers'' (req_headers rq)), w)
           | None \<Rightarrow> simple_response c inner origin rq w))"

section \<open>The application as a whole\<close>

text \<open>The middleware of the application, outermost first, around its router.\<close>

definition serve :: "fastapi \<Rightarrow> request \<Rightarrow> 'w \<Rightarrow> response \<times> 'w" where
  "serve a = foldr cors_call (user_middleware a) (router (routes a))"

text \<open>The paths that some route of an application matches.\<close>

definition registered :: "fastapi \<Rightarrow> string \<Rightarrow> bool" where
  "registered a p = list_ex (\<lambda>r. path_regex_match (route_path r) p) (routes a)"

section \<open>Facts about the application object\<close>

lemma routes_app:
  "routes app =
     [\<lparr>route_path = ''/openapi.json'', methods = [''GET'', ''HEAD''], endpoint = Docs Openapi_schema\<rparr>,
      \<lparr>route_path = ''/docs'', methods = [''GET'', ''HEAD''], endpoint = Docs Swagger_ui_html\<rparr>,
      \<lparr>route_path = ''/docs/oauth2-redirect'', methods = [''GET'', ''HEAD''],
         endpoint = Docs Swagger_ui_redirect\<rparr>,
      \<lparr>route_path = ''/redoc'', methods = [''GET'', ''HEAD''], endpoint = Docs Redoc_html\<rparr>,
      \<lparr>route_path = ''/'', methods = [''GET''], endpoint = Handler Root\<rparr>,
      \<lparr>route_path = ''/health'', methods = [''GET''], endpoint = Handler Health_check\<rparr>,
      \<lparr>route_path = ''/api/v1/analyze'', methods = [''GET''],
         endpoint = Handler Analyze_transactions\<rparr>,
      \<lparr>route_path = ''/api/v1/anomalies'', methods = [''GET''],
         endpoint = Handler Get_anomalies\<rparr>]"
  by (simp add: app_def app_get_def add_middleware_def FastAPI_def setup_docs_def add_route_def)

lemma user_middleware_app: "user_middleware app = [CORSMiddleware]"
  by (simp add: app_def app_get_def add_middleware_def FastAPI_def setup_docs_def add_route_def)

lemma serve_app: "serve app = cors_call CORSMiddleware (router (routes app))"
  by (simp add: serve_def user_middleware_app)

text \<open>A request that is no preflight gets the status, the body and the effect of the router.\<close>

lemma cors_call_not_preflight:
  assumes "\<not> is_preflight rq"
  shows "status (fst (cors_call c inner rq w)) = status (fst (inner rq w))"
    and "body (fst (cors_call c inner rq w)) = body (fst (inner rq w))"
    and "snd (cors_call c inner rq w) = snd (inner rq w)"
  using assms
  by (auto simp: cors_call_def is_preflight_def simple_response_def Let_def
      split: option.splits prod.splits if_splits)

lemma GET_not_preflight: "req_method rq = ''GET'' \<Longrightarrow> \<not> is_preflight rq"
  by (simp add: is_preflight_def)

lemma invoke_state: "snd (invoke c w) = w"
  by (cases c) (simp_all add: root_def health_check_def analyze_transactions_def get_anomalies_def)

lemma invoke_value: "fst (invoke c w) = fst (invoke c w')"
  by (cases c) (simp_all add: root_def health_check_def analyze_transactions_def get_anomalies_def)

lemma invoke_all_state: "snd (invoke_all cs w) = w"
proof (induction cs arbitrary: w)
  case Nil
  show ?case by simp
next
  case (Cons c cs)
  have "snd (invoke c w) = w" by (rule invoke_state)
  with Cons show ?case by (simp add: split_beta)
qed

text \<open>The router on a GET of each of the four paths of \<^verbatim>\<open>main.py\<close>.\<close>

lemma router_GET_root:
  "req_method rq = ''GET'' \<Longrightarrow> req_path rq = ''/'' \<Longrightarrow>
   router (routes app) rq w = (JSONResponse 200 (Json (fst (root w))), w)"
  by (simp add: routes_app router_def route_matches_def path_regex_match_def route_handle_def
      root_def)

lemma router_GET_health:
  "req_method rq = ''GET'' \<Longrightarrow> req_path rq = ''/health'' \<Longrightarrow>
   router (routes app) rq w = (JSONResponse 200 (Json (fst (health_check w))), w)"
  by (simp add: routes_app router_def route_matches_def path_regex_match_def route_handle_def
      health_check_def)

lemma router_GET_analyze:
  "req_method rq = ''GET'' \<Longrightarrow> req_path rq = ''/api/v1/analyze'' \<Longrightarrow>
   router (routes app) rq w = (JSONResponse 200 (Json (fst (analyze_transactions w))), w)"
  by (simp add: routes_app router_def route_matches_def path_regex_match_def route_handle_def
      analyze_transactions_def)

lemma router_GET_anomalies:
  "req_method rq = ''GET'' \<Longrightarrow> req_path rq = ''/api/v1/anomalies'' \<Longrightarrow>
   router (routes app) rq w = (JSONResponse 200 (Json (fst (get_anomalies w))), w)"
  by (simp add: routes_app router_def route_matches_def path_regex_match_def route_handle_def
      get_anomalies_def)

section \<open>The four routes\<close>

text \<open>
  C1. Every request GET \<^verbatim>\<open>/\<close>, whatever its headers and whatever happened before, is
  answered with status 200 and the body
  \<^verbatim>\<open>{"message": "TX Analyzer API", "version": "1.0.0"}\<close>, which is the value of the handler
  \<^verbatim>\<open>root\<close>.
\<close>

theorem root_response:
  assumes "req_method rq = ''GET''" and "req_path rq = ''/''"
  shows "status (fst (serve app rq w)) = 200 \<and>
         body (fst (serve app rq w)) =
           Json (PyDict [(''message'', PyStr ''TX Analyzer API''), (''version'', PyStr ''1.0.0'')]) \<and>
         fst (root w) =
           PyDict [(''message'', PyStr ''TX Analyzer API''), (''version'', PyStr ''1.0.0'')]"
proof -
  have np: "\<not> is_preflight rq" using assms(1) by (rule GET_not_preflight)
  have r: "router (routes app) rq w = (JSONResponse 200 (Json (fst (root w))), w)"
    using assms by (rule router_GET_root)
  have v: "fst (root w) =
      PyDict [(''message'', PyStr ''TX Analyzer API''), (''version'', PyStr ''1.0.0'')]"
    by (simp add: root_def)
  show ?thesis
    using cors_call_not_preflight(1,2) [OF np, of CORSMiddleware "router (routes app)" w] r v
    by (simp add: serve_app JSONResponse_def)
qed

theorem root_response_witness:
  "status (fst (serve app \<lparr>req_method = ''GET'', req_path = ''/'',
       req_headers = [(''origin'', ''http://a.example'')]\<rparr> (0::nat))) = 200 \<and>
   body (fst (serve app \<lparr>req_method = ''GET'', req_path = ''/'',
       req_headers = [(''origin'', ''http://a.example'')]\<rparr> (0::nat))) =
     Json (PyDict [(''message'', PyStr ''TX Analyzer API''), (''version'', PyStr ''1.0.0'')])"
  using root_response [of "\<lparr>req_method = ''GET'', req_path = ''/'',
       req_headers = [(''origin'', ''http://a.example'')]\<rparr>" "0::nat"]
  by simp

text \<open>
  C2. Every request GET \<^verbatim>\<open>/health\<close> is answered with status 200 and the body
  \<^verbatim>\<open>{"status": "healthy", "service": "tx-analyzer"}\<close>, the value of the handler
  \<^verbatim>\<open>health_check\<close>.
\<close>

theorem health_check_response:
  assumes "req_method rq = ''GET''" and "req_path rq = ''/health''"
  shows "status (fst (serve app rq w)) = 200 \<and>
         body (fst (serve app rq w)) =
           Json (PyDict [(''status'', PyStr ''healthy''), (''service'', PyStr ''tx-analyzer'')]) \<and>
         fst (health_check w) =
           PyDict [(''status'', PyStr ''healthy''), (''service'', PyStr ''tx-analyzer'')]"
proof -
  have np: "\<not> is_preflight rq" using assms(1) by (rule GET_not_preflight)
  have r: "router (routes app) rq w = (JSONResponse 200 (Json (fst (health_check w))), w)"
    using assms by (rule router_GET_health)
  have v: "fst (health_check w) =
      PyDict [(''status'', PyStr ''healthy''), (''service'', PyStr ''tx-analyzer'')]"
    by (simp add: health_check_def)
  show ?thesis
    using cors_call_not_preflight(1,2) [OF np, of CORSMiddleware "router (routes app)" w] r v
    by (simp add: serve_app JSONResponse_def)
qed

theorem health_check_response_witness:
  "status (fst (serve app \<lparr>req_method = ''GET'', req_path = ''/health'',
       req_headers = []\<rparr> (0::nat))) = 200 \<and>
   body (fst (serve app \<lparr>req_method = ''GET'', req_path = ''/health'',
       req_headers = []\<rparr> (0::nat))) =
     Json (PyDict [(''status'', PyStr ''healthy''), (''service'', PyStr ''tx-analyzer'')])"
  using health_check_response [of "\<lparr>req_method = ''GET'', req_path = ''/health'',
       req_headers = []\<rparr>" "0::nat"]
  by simp

text \<open>
  C3. The body of the answer to every request GET \<^verbatim>\<open>/api/v1/analyze\<close> is a dictionary
  whose field \<^verbatim>\<open>features\<close> is the list of the four strings "Anomaly detection",
  "Risk scoring", "Whale identification", "Pattern recognition", in this order.
\<close>

theorem analyze_features:
  assumes "req_method rq = ''GET''" and "req_path rq = ''/api/v1/analyze''"
  shows "\<exists>v. body (fst (serve app rq w)) = Json v \<and> v = fst (analyze_transactions w) \<and>
           field ''features'' v =
             Some (PyList [PyStr ''Anomaly detection'', PyStr ''Risk scoring'',
                           PyStr ''Whale identification'', PyStr ''Pattern recognition''])"
proof -
  have np: "\<not> is_preflight rq" using assms(1) by (rule GET_not_preflight)
  have r: "router (routes app) rq w = (JSONResponse 200 (Json (fst (analyze_transactions w))), w)"
    using assms by (rule router_GET_analyze)
  have b: "body (fst (serve app rq w)) = Json (fst (analyze_transactions w))"
    using cors_call_not_preflight(2) [OF np, of CORSMiddleware "router (routes app)" w] r
    by (simp add: serve_app JSONResponse_def)
  have f: "field ''features'' (fst (analyze_transactions w)) =
      Some (PyList [PyStr ''Anomaly detection'', PyStr ''Risk scoring'',
                    PyStr ''Whale identification'', PyStr ''Pattern recognition''])"
    by (simp add: analyze_transactions_def)
  from b f show ?thesis by blast
qed

theorem analyze_features_witness:
  "\<exists>v. body (fst (serve app \<lparr>req_method = ''GET'', req_path = ''/api/v1/analyze'',
            req_headers = [(''cookie'', ''a=1'')]\<rparr> (0::nat))) = Json v \<and>
       field ''features'' v =
         Some (PyList [PyStr ''Anomaly detection'', PyStr ''Risk scoring'',
                       PyStr ''Whale identification'', PyStr ''Pattern recognition''])"
  using analyze_features [of "\<lparr>req_method = ''GET'', req_path = ''/api/v1/analyze'',
            req_headers = [(''cookie'', ''a=1'')]\<rparr>" "0::nat"]
  by auto

text \<open>
  C4. In the body of the answer to every request GET \<^verbatim>\<open>/api/v1/anomalies\<close> the field
  \<^verbatim>\<open>total\<close> is 0 and the field \<^verbatim>\<open>anomalies\<close> is the empty list. Calling
  \<^verbatim>\<open>get_anomalies\<close> again and again changes nothing: after any number of calls, from any
  state, every call has returned the same value and the state is as it was.
\<close>

theorem anomalies_empty:
  assumes "req_method rq = ''GET''" and "req_path rq = ''/api/v1/anomalies''"
  shows "\<exists>v. body (fst (serve app rq w)) = Json v \<and>
           field ''total'' v = Some (PyInt 0) \<and> field ''anomalies'' v = Some (PyList []) \<and>
           invoke_all (replicate n Get_anomalies) w' = (replicate n v, w')"
proof -
  have np: "\<not> is_preflight rq" using assms(1) by (rule GET_not_preflight)
  have r: "router (routes app) rq w = (JSONResponse 200 (Json (fst (get_anomalies w))), w)"
    using assms by (rule router_GET_anomalies)
  have b: "body (fst (serve app rq w)) = Json (fst (get_anomalies w))"
    using cors_call_not_preflight(2) [OF np, of CORSMiddleware "router (routes app)" w] r
    by (simp add: serve_app JSONResponse_def)
  have f: "field ''total'' (fst (get_anomalies w)) = Some (PyInt 0)"
      "field ''anomalies'' (fst (get_anomalies w)) = Some (PyList [])"
    by (simp_all add: get_anomalies_def)
  have rep: "invoke_all (replicate n Get_anomalies) w' = (replicate n (fst (get_anomalies w)), w')"
    by (induction n) (simp_all add: get_anomalies_def)
  from b f rep show ?thesis by blast
qed

theorem anomalies_empty_witness:
  "\<exists>v. body (fst (serve app \<lparr>req_method = ''GET'', req_path = ''/api/v1/anomalies'',
            req_headers = []\<rparr> (0::nat))) = Json v \<and>
       field ''total'' v = Some (PyInt 0) \<and> field ''anomalies'' v = Some (PyList []) \<and>
       invoke_all [Get_anomalies, Get_anomalies, Get_anomalies] (7::nat) = ([v, v, v], 7)"
  using anomalies_empty [of "\<lparr>req_method = ''GET'', req_path = ''/api/v1/anomalies'',
            req_headers = []\<rparr>" "0::nat" 3 "7::nat"]
  by (auto simp: numeral_3_eq_3)

text \<open>
  C5. Each of the four operations is stateless: it leaves the state of the process as it
  found it, and its value is the same in any two states, so also after any calls of any
  of the operations in any order.
\<close>

theorem operations_stateless:
  "snd (invoke c w) = w \<and> fst (invoke c w) = fst (invoke c w') \<and>
   fst (invoke c (snd (invoke_all cs w))) = fst (invoke c (snd (invoke_all cs' w')))"
proof -
  have "fst (invoke c (snd (invoke_all cs w))) = fst (invoke c (snd (invoke_all cs' w')))"
    by (rule invoke_value)
  then show ?thesis using invoke_state [of c w] invoke_value [of c w w'] by simp
qed

text \<open>
  C10. In the value of \<^verbatim>\<open>get_anomalies\<close> the field \<^verbatim>\<open>total\<close> is the length of the list in
  the field \<^verbatim>\<open>anomalies\<close>.
\<close>

theorem anomalies_total_is_length:
  "\<exists>xs. field ''anomalies'' (fst (get_anomalies w)) = Some (PyList xs) \<and>
        field ''total'' (fst (get_anomalies w)) = Some (PyInt (int (length xs)))"
  by (simp add: get_anomalies_def)

section \<open>The port at startup\<close>


text \<open>How the conversion reads a string of ASCII digits, and what it never reads.\<close>

lemma digits_from_digits:
  "list_all is_digit cs \<Longrightarrow>
   digits_from acc cs = Some (foldl (\<lambda>a c. 10 * a + (c - 48)) acc cs)"
proof (induction acc cs rule: digits_from.induct)
  case (1 acc)
  show ?case by simp
next
  case (2 acc c)
  then show ?case by (simp add: is_digit_def digit_val_def)
next
  case (3 acc c d ds)
  from "3.prems" have c: "digit_val c = Some (c - 48)" "c \<noteq> 95"
    by (auto simp: is_digit_def digit_val_def)
  from "3.prems" have "list_all is_digit (d # ds)" by simp
  with "3.IH"(2) c show ?case by simp
qed

lemma digits_are_ascii: "list_all is_digit ds \<Longrightarrow> list_all (\<lambda>c. c < 128) ds"
  by (induction ds) (auto simp: is_digit_def)

lemma trim_digits:
  assumes "ds \<noteq> []" and "list_all is_digit ds"
  shows "trim ds = ds"
proof -
  have ns: "\<not> is_space c" if "is_digit c" for c
    using that by (simp add: is_digit_def is_space_def)
  from assms have "is_digit (hd ds)" "is_digit (last ds)"
    by (simp_all add: list_all_iff)
  then have h: "\<not> is_space (hd ds)" "\<not> is_space (hd (rev ds))"
    using assms(1) by (simp_all add: ns hd_rev)
  have 1: "dropWhile is_space ds = ds"
    using h(1) by (simp add: dropWhile_eq_self_iff)
  have 2: "dropWhile is_space (rev ds) = rev ds"
    using h(2) by (simp add: dropWhile_eq_self_iff)
  show ?thesis by (simp add: trim_def 1 2)
qed

lemma int_of_str_digits:
  assumes "ds \<noteq> []" and "list_all is_digit ds" and "length ds \<le> 4300"
  shows "int_of_str td ds = Some (int (decimal_value ds))"
proof -
  from assms(1) obtain c cs where ds: "ds = c # cs" by (cases ds) auto
  with assms(2) have c: "digit_val c = Some (c - 48)" "c \<noteq> 45" "c \<noteq> 43" "list_all is_digit cs"
    by (auto simp: is_digit_def digit_val_def)
  have "filter (\<lambda>x. digit_val x \<noteq> None) ds = ds"
    using assms(2) by (auto simp: list_all_iff is_digit_def digit_val_def intro!: filter_True)
  with assms(3) have "unsigned_literal ds = digits_from (c - 48) cs"
    using ds c(1) by (simp add: unsigned_literal_def)
  also have "\<dots> = Some (foldl (\<lambda>a c. 10 * a + (c - 48)) (c - 48) cs)"
    using c(4) by (rule digits_from_digits)
  also have "foldl (\<lambda>a c. 10 * a + (c - 48)) (c - 48) cs = decimal_value ds"
    by (simp add: decimal_value_def ds)
  finally have u: "unsigned_literal ds = Some (decimal_value ds)" .
  have "trim (to_ascii td ds) = ds"
    using trim_digits [OF assms(1,2)] digits_are_ascii [OF assms(2)] by (simp add: to_ascii_def)
  then show ?thesis using ds c(2,3) u by (simp add: int_of_str_def)
qed

text \<open>A character that no literal holds: below 127 and no digit, white space, sign or underscore.\<close>

lemma digits_from_chars:
  "digits_from acc cs = Some n \<Longrightarrow> \<forall>c\<in>set cs. is_digit c \<or> c = 95"
proof (induction acc cs rule: digits_from.induct)
  case (1 acc)
  show ?case by simp
next
  case (2 acc c)
  then show ?case by (auto simp: is_digit_def digit_val_def split: if_splits)
next
  case (3 acc c d ds)
  show ?case
  proof (cases "c = 95")
    case True
    with "3.prems" obtain v where v: "digit_val d = Some v" "digits_from (10 * acc + v) ds = Some n"
      by (auto split: option.splits)
    from v(1) have "is_digit d" by (auto simp: is_digit_def digit_val_def split: if_splits)
    with "3.IH"(1) [OF True v] True show ?thesis by simp
  next
    case False
    with "3.prems" obtain v where v: "digit_val c = Some v"
      "digits_from (10 * acc + v) (d # ds) = Some n"
      by (auto split: option.splits)
    from v(1) have "is_digit c" by (auto simp: is_digit_def digit_val_def split: if_splits)
    with "3.IH"(2) [OF False v] show ?thesis by simp
  qed
qed

lemma unsigned_literal_chars:
  "unsigned_literal s = Some n \<Longrightarrow> \<forall>c\<in>set s. is_digit c \<or> c = 95"
  by (cases s)
    (auto simp: unsigned_literal_def is_digit_def digit_val_def
      split: option.splits if_splits dest!: digits_from_chars)

lemma question_mark_not_in_literal: "\<not> in_literal 63"
  by (simp add: in_literal_def is_digit_def is_space_def)

lemma transform_keeps_bad:
  "\<exists>c\<in>set s. c < 127 \<and> \<not> in_literal c \<Longrightarrow> \<exists>c\<in>set (transform td s). \<not> in_literal c"
proof (induction s)
  case Nil
  then show ?case by simp
next
  case (Cons a s)
  show ?case
  proof (cases "a < 127")
    case True
    with Cons show ?thesis by auto
  next
    case False
    with Cons.prems have "\<exists>c\<in>set s. c < 127 \<and> \<not> in_literal c" by auto
    with Cons.IH have "\<exists>c\<in>set (transform td s). \<not> in_literal c" .
    with False show ?thesis
      using question_mark_not_in_literal by (auto split: option.splits)
  qed
qed

lemma to_ascii_keeps_bad:
  "\<exists>c\<in>set s. c < 127 \<and> \<not> in_literal c \<Longrightarrow> \<exists>c\<in>set (to_ascii td s). \<not> in_literal c"
  using transform_keeps_bad [of s td] by (auto simp: to_ascii_def)

lemma dropWhile_keeps: "c \<in> set xs \<Longrightarrow> \<not> P c \<Longrightarrow> c \<in> set (dropWhile P xs)"
  by (induction xs) auto

lemma trim_keeps: "c \<in> set s \<Longrightarrow> \<not> is_space c \<Longrightarrow> c \<in> set (trim s)"
  by (simp add: trim_def dropWhile_keeps)

lemma int_of_str_bad_char:
  assumes "\<exists>c\<in>set s. c < 127 \<and> \<not> in_literal c"
  shows "int_of_str td s = None"
proof -
  from to_ascii_keeps_bad [OF assms] obtain x where x: "x \<in> set (to_ascii td s)" "\<not> in_literal x"
    by blast
  then have xs: "x \<in> set (trim (to_ascii td s))" "x \<noteq> 45" "x \<noteq> 43" "\<not> is_digit x" "x \<noteq> 95"
    by (auto simp: in_literal_def intro: trim_keeps)
  then obtain y ys where t: "trim (to_ascii td s) = y # ys"
    by (cases "trim (to_ascii td s)") auto
  have no: "unsigned_literal zs = None" if "x \<in> set zs" for zs
  proof (cases "unsigned_literal zs")
    case (Some n)
    from unsigned_literal_chars [OF Some] that xs(4,5) show ?thesis by blast
  qed simp
  show ?thesis
  proof (cases "y = 45 \<or> y = 43")
    case True
    with xs t have "x \<in> set ys" by auto
    with no t True show ?thesis by (auto simp: int_of_str_def)
  next
    case False
    with no [of "y # ys"] xs(1) t show ?thesis by (simp add: int_of_str_def)
  qed
qed

lemma int_of_str_empty: "int_of_str td [] = None"
  by (simp add: int_of_str_def to_ascii_def trim_def)

lemma int_of_str_too_long:
  assumes "list_all is_digit ds" and "4300 < length ds"
  shows "int_of_str td ds = None"
proof -
  from assms(2) have ne: "ds \<noteq> []" by auto
  then obtain c cs where ds: "ds = c # cs" by (cases ds) auto
  with assms(1) have c: "digit_val c = Some (c - 48)" "c \<noteq> 45" "c \<noteq> 43"
    by (auto simp: is_digit_def digit_val_def)
  have "filter (\<lambda>x. digit_val x \<noteq> None) ds = ds"
    using assms(1) by (auto simp: list_all_iff is_digit_def digit_val_def intro!: filter_True)
  with assms(2) have u: "unsigned_literal ds = None"
    using ds c(1) by (simp add: unsigned_literal_def)
  have "trim (to_ascii td ds) = ds"
    using trim_digits [OF ne assms(1)] digits_are_ascii [OF assms(1)] by (simp add: to_ascii_def)
  then show ?thesis using ds c(2,3) u by (simp add: int_of_str_def)
qed

text \<open>The conversion at single strings.\<close>

lemma int_of_str_reads:
  "int_of_str td (codepoints ''  +90_01 '') = Some 9001"
  "int_of_str td (codepoints ''-1'') = Some (- 1)"
  "int_of_str td (codepoints ''0080'') = Some 80"
  "int_of_str td [9, 10, 11, 12, 13, 32, 56, 48] = Some 80"
  "int_of_str td [0xA0, 53, 0x85, 0x3000] = Some 5"
  "int_of_str four_scripts [0xFF11, 0x662, 0x6F3, 0x96A] = Some 1234"
  by (simp_all add: codepoints_def int_of_str_def to_ascii_def trim_def is_space_def
      unsigned_literal_def digit_val_def is_unicode_space_def four_scripts_def)

lemma int_of_str_refuses:
  "int_of_str td (codepoints ''- 5'') = None"
  "int_of_str td (codepoints ''+-5'') = None"
  "int_of_str td (codepoints ''5 5'') = None"
  "int_of_str td (codepoints ''5__0'') = None"
  "int_of_str td (codepoints ''_5'') = None"
  "int_of_str td (codepoints ''5_'') = None"
  "int_of_str td (codepoints ''  '') = None"
  "int_of_str td (codepoints ''+'') = None"
  "int_of_str four_scripts [0xB2] = None"
  "int_of_str td [53, 8] = None"
  "int_of_str td [53, 14] = None"
  "int_of_str td [53, 33] = None"
  "int_of_str td [47] = None"
  "int_of_str td [58] = None"
  by (simp_all add: codepoints_def int_of_str_def to_ascii_def trim_def is_space_def
      unsigned_literal_def digit_val_def is_unicode_space_def four_scripts_def)

text \<open>
  C7. \<^verbatim>\<open>main.py\<close> passes to \<^verbatim>\<open>uvicorn.run\<close> the host \<^verbatim>\<open>0.0.0.0\<close>, which is every
  network interface, and as the port: 8002 when \<^verbatim>\<open>PORT\<close> is not set; the integer \<open>n\<close> when
  \<^verbatim>\<open>PORT\<close> is set to a string that \<^verbatim>\<open>int\<close> reads as \<open>n\<close>, so not 8002 unless \<open>n\<close> is; in
  particular the value of the digits when \<^verbatim>\<open>PORT\<close> is a string of at most 4300 ASCII
  digits.
\<close>

theorem main_binds_port:
  "(env ''PORT'' = None \<longrightarrow>
      main td env =
        Inr \<lparr>app_ref = ''main:app'', host = ''0.0.0.0'', port = 8002, reload = True\<rparr>) \<and>
   (env ''PORT'' = Some s \<and> int_of_str td s = Some n \<longrightarrow>
      main td env =
        Inr \<lparr>app_ref = ''main:app'', host = ''0.0.0.0'', port = n, reload = True\<rparr>) \<and>
   (env ''PORT'' = Some s \<and> s \<noteq> [] \<and> list_all is_digit s \<and> length s \<le> 4300 \<longrightarrow>
      main td env =
        Inr \<lparr>app_ref = ''main:app'', host = ''0.0.0.0'', port = int (decimal_value s),
             reload = True\<rparr>)"
proof -
  have "int_of_str td s = Some (int (decimal_value s))"
    if "s \<noteq> []" "list_all is_digit s" "length s \<le> 4300"
    using that by (rule int_of_str_digits)
  then show ?thesis by (auto simp: main_def os_getenv_def)
qed

theorem main_binds_port_witness:
  "main four_scripts Map.empty =
     Inr \<lparr>app_ref = ''main:app'', host = ''0.0.0.0'', port = 8002, reload = True\<rparr> \<and>
   main four_scripts [''PORT'' \<mapsto> codepoints ''9000''] =
     Inr \<lparr>app_ref = ''main:app'', host = ''0.0.0.0'', port = 9000, reload = True\<rparr> \<and>
   main four_scripts [''PORT'' \<mapsto> codepoints ''  +90_01 ''] =
     Inr \<lparr>app_ref = ''main:app'', host = ''0.0.0.0'', port = 9001, reload = True\<rparr> \<and>
   main four_scripts [''PORT'' \<mapsto> [0xA0, 53, 0x85, 0x3000]] =
     Inr \<lparr>app_ref = ''main:app'', host = ''0.0.0.0'', port = 5, reload = True\<rparr> \<and>
   main four_scripts [''PORT'' \<mapsto> [0xFF11, 0x662, 0x6F3, 0x96A]] =
     Inr \<lparr>app_ref = ''main:app'', host = ''0.0.0.0'', port = 1234, reload = True\<rparr>"
proof -
  have d: "codepoints ''9000'' \<noteq> []" "list_all is_digit (codepoints ''9000'')"
    "length (codepoints ''9000'') \<le> 4300" "decimal_value (codepoints ''9000'') = 9000"
    by (simp_all add: codepoints_def is_digit_def decimal_value_def)
  show ?thesis
    using main_binds_port [of Map.empty four_scripts]
      main_binds_port [of "[''PORT'' \<mapsto> codepoints ''9000'']" four_scripts "codepoints ''9000''"]
      main_binds_port [of "[''PORT'' \<mapsto> codepoints ''  +90_01 '']" four_scripts
        "codepoints ''  +90_01 ''" 9001]
      main_binds_port [of "[''PORT'' \<mapsto> [0xA0, 53, 0x85, 0x3000]]" four_scripts
        "[0xA0, 53, 0x85, 0x3000]" 5]
      main_binds_port [of "[''PORT'' \<mapsto> [0xFF11, 0x662, 0x6F3, 0x96A]]" four_scripts
        "[0xFF11, 0x662, 0x6F3, 0x96A]" 1234]
      d int_of_str_reads
    by simp
qed

text \<open>
  C9. When \<^verbatim>\<open>PORT\<close> is set to a string that \<^verbatim>\<open>int\<close> does not read, startup ends with the
  \<^verbatim>\<open>ValueError\<close> of the conversion and \<^verbatim>\<open>uvicorn.run\<close> is not called; such are the empty
  string and every string with a character below 127 that is no digit, white space,
  sign or underscore. Whenever \<^verbatim>\<open>PORT\<close> is set and \<^verbatim>\<open>uvicorn.run\<close> is called, the port is
  what \<^verbatim>\<open>int\<close> reads from the string. The default 8002 is what \<^verbatim>\<open>os.getenv\<close> returns
  exactly when \<^verbatim>\<open>PORT\<close> is not set.
\<close>

theorem main_unparsable_port:
  "(env ''PORT'' = Some s \<and> int_of_str td s = None \<longrightarrow> main td env = Inl (ValueError s)) \<and>
   (env ''PORT'' = Some s \<and> (s = [] \<or> (\<exists>c\<in>set s. c < 127 \<and> \<not> in_literal c)) \<longrightarrow>
      main td env = Inl (ValueError s)) \<and>
   (env ''PORT'' = Some s \<and> main td env = Inr cfg \<longrightarrow> int_of_str td s = Some (port cfg)) \<and>
   (os_getenv env ''PORT'' 8002 = Int_value 8002 \<longleftrightarrow> env ''PORT'' = None)"
proof -
  have "int_of_str td s = None" if "s = [] \<or> (\<exists>c\<in>set s. c < 127 \<and> \<not> in_literal c)"
    using that
  proof
    assume "s = []"
    then show ?thesis by (simp add: int_of_str_empty)
  next
    assume "\<exists>c\<in>set s. c < 127 \<and> \<not> in_literal c"
    then show ?thesis by (rule int_of_str_bad_char)
  qed
  then show ?thesis by (auto simp: main_def os_getenv_def split: option.splits)
qed

theorem main_unparsable_port_witness:
  "main four_scripts [''PORT'' \<mapsto> codepoints ''80a''] = Inl (ValueError (codepoints ''80a'')) \<and>
   main four_scripts [''PORT'' \<mapsto> []] = Inl (ValueError []) \<and>
   main four_scripts [''PORT'' \<mapsto> [0x1C, 53]] = Inl (ValueError [0x1C, 53]) \<and>
   main four_scripts [''PORT'' \<mapsto> codepoints ''- 5''] = Inl (ValueError (codepoints ''- 5'')) \<and>
   main four_scripts [''PORT'' \<mapsto> [0xB2]] = Inl (ValueError [0xB2]) \<and>
   main four_scripts [''PORT'' \<mapsto> replicate 4301 49] = Inl (ValueError (replicate 4301 49))"
proof -
  have a: "\<exists>c\<in>set (codepoints ''80a''). c < 127 \<and> \<not> in_literal c"
    by (simp add: codepoints_def in_literal_def is_digit_def is_space_def)
  have b: "\<exists>c\<in>set [0x1C, 53]. c < 127 \<and> \<not> in_literal c"
    by (simp add: in_literal_def is_digit_def is_space_def)
  have c: "int_of_str four_scripts (replicate 4301 49) = None"
    by (rule int_of_str_too_long) (simp_all add: list_all_iff is_digit_def)
  show ?thesis
    using main_unparsable_port [of "[''PORT'' \<mapsto> codepoints ''80a'']" "codepoints ''80a''" four_scripts]
      main_unparsable_port [of "[''PORT'' \<mapsto> []]" "[]" four_scripts]
      main_unparsable_port [of "[''PORT'' \<mapsto> [0x1C, 53]]" "[0x1C, 53]" four_scripts]
      main_unparsable_port [of "[''PORT'' \<mapsto> codepoints ''- 5'']" "codepoints ''- 5''" four_scripts]
      main_unparsable_port [of "[''PORT'' \<mapsto> [0xB2]]" "[0xB2]" four_scripts]
      main_unparsable_port [of "[''PORT'' \<mapsto> replicate 4301 49]" "replicate 4301 49" four_scripts]
      a b c int_of_str_refuses
    by simp
qed

section \<open>Requests that no handler answers\<close>

lemma route_matches_NONE: "route_matches r m p = Match_NONE \<longleftrightarrow> \<not> path_regex_match (route_path r) p"
  by (simp add: route_matches_def)

lemma select_route_no_match:
  "\<not> list_ex (\<lambda>r. path_regex_match (route_path r) p) rs \<Longrightarrow> select_route rs m p partial = partial"
proof (induction rs arbitrary: partial)
  case Nil
  show ?case by simp
next
  case (Cons r rs)
  from Cons.prems have "route_matches r m p = Match_NONE"
    by (simp add: route_matches_NONE)
  moreover from Cons.prems have "\<not> list_ex (\<lambda>r. path_regex_match (route_path r) p) rs"
    by simp
  ultimately show ?case using Cons.IH by simp
qed

lemma router_not_found:
  assumes "\<not> registered a (req_path rq)" and "\<not> registered a (redirect_path (req_path rq))"
  shows "router (routes a) rq w = (http_exception 404 ''Not Found'', w)"
proof -
  have "select_route (routes a) (req_method rq) (req_path rq) None = None"
    using assms(1) unfolding registered_def by (rule select_route_no_match)
  moreover have "\<not> list_ex (\<lambda>r. route_matches r (req_method rq) (redirect_path (req_path rq))
      \<noteq> Match_NONE) (routes a)"
    using assms(2) by (simp add: registered_def route_matches_NONE)
  ultimately show ?thesis by (simp add: router_def)
qed

lemma run_endpoint_status: "status (fst (run_endpoint e w)) = 200"
proof (cases e)
  case (Handler h)
  then show ?thesis by (simp add: split_beta JSONResponse_def)
next
  case (Docs g)
  then show ?thesis by (cases g) (simp_all add: JSONResponse_def HTMLResponse_def)
qed

lemma router_status: "status (fst (router rs rq w)) \<in> {200, 307, 404, 405}"
proof (cases "select_route rs (req_method rq) (req_path rq) None")
  case None
  then show ?thesis
    by (simp add: router_def http_exception_def JSONResponse_def RedirectResponse_def)
next
  case (Some r)
  then show ?thesis
    using run_endpoint_status [of "endpoint r" w]
    by (simp add: router_def route_handle_def http_exception_def JSONResponse_def)
qed

lemma router_method_not_allowed:
  assumes "req_method rq \<noteq> ''GET''"
    and "req_path rq \<in> {''/'', ''/health'', ''/api/v1/analyze'', ''/api/v1/anomalies''}"
  shows "router (routes app) rq w = (http_exception 405 ''Method Not Allowed'', w)"
proof -
  consider "req_path rq = ''/''" | "req_path rq = ''/health''"
    | "req_path rq = ''/api/v1/analyze''" | "req_path rq = ''/api/v1/anomalies''"
    using assms(2) by blast
  then show ?thesis
  proof cases
    case 1
    with assms(1) show ?thesis
      by (simp add: routes_app router_def route_matches_def path_regex_match_def route_handle_def)
  next
    case 2
    with assms(1) show ?thesis
      by (simp add: routes_app router_def route_matches_def path_regex_match_def route_handle_def)
  next
    case 3
    with assms(1) show ?thesis
      by (simp add: routes_app router_def route_matches_def path_regex_match_def route_handle_def)
  next
    case 4
    with assms(1) show ?thesis
      by (simp add: routes_app router_def route_matches_def path_regex_match_def route_handle_def)
  qed
qed

lemma select_route_partial:
  "partial \<noteq> None \<Longrightarrow> select_route rs m p partial \<noteq> None"
  by (induction rs arbitrary: partial) (auto split: match.splits)

lemma select_route_match:
  "list_ex (\<lambda>r. path_regex_match (route_path r) p) rs \<Longrightarrow> select_route rs m p partial \<noteq> None"
proof (induction rs arbitrary: partial)
  case Nil
  then show ?case by simp
next
  case (Cons r rs)
  show ?case
  proof (cases "route_matches r m p")
    case Match_NONE
    with Cons.prems have "list_ex (\<lambda>r. path_regex_match (route_path r) p) rs"
      by (simp add: route_matches_NONE)
    with Cons.IH Match_NONE show ?thesis by simp
  next
    case Match_PARTIAL
    then show ?thesis using select_route_partial [of "Some r" rs m p]
      select_route_partial [of partial rs m p] by simp
  next
    case Match_FULL
    then show ?thesis by simp
  qed
qed

lemma router_registered:
  assumes "registered a (req_path rq)"
  shows "status (fst (router (routes a) rq w)) \<in> {200, 405}"
proof -
  from assms obtain r where "select_route (routes a) (req_method rq) (req_path rq) None = Some r"
    using select_route_match [of "req_path rq" "routes a" "req_method rq" None]
    by (auto simp: registered_def)
  then show ?thesis
    using run_endpoint_status [of "endpoint r" w]
    by (simp add: router_def route_handle_def http_exception_def JSONResponse_def)
qed

lemma router_redirect:
  assumes "\<not> registered a (req_path rq)" and "registered a (redirect_path (req_path rq))"
    and "req_path rq \<noteq> ''/''"
  shows "router (routes a) rq w = (RedirectResponse, w)"
proof -
  have "select_route (routes a) (req_method rq) (req_path rq) None = None"
    using assms(1) unfolding registered_def by (rule select_route_no_match)
  moreover have "list_ex (\<lambda>r. route_matches r (req_method rq) (redirect_path (req_path rq))
      \<noteq> Match_NONE) (routes a)"
    using assms(2) by (simp add: registered_def route_matches_NONE)
  ultimately show ?thesis using assms(3) by (simp add: router_def)
qed

lemma root_registered: "registered app ''/''"
  by (simp add: registered_def routes_app path_regex_match_def)

text \<open>The router of the application, by the path of the request.\<close>

lemma router_app_status:
  "status (fst (router (routes app) rq w)) =
     (if registered app (req_path rq) then status (fst (router (routes app) rq w))
      else if registered app (redirect_path (req_path rq)) then 307 else 404)"
proof (cases "registered app (req_path rq)")
  case True
  then show ?thesis by simp
next
  case False
  then have ne: "req_path rq \<noteq> ''/''" using root_registered by auto
  show ?thesis
  proof (cases "registered app (redirect_path (req_path rq))")
    case True
    from router_redirect [OF False True ne, of w] False True show ?thesis
      by (simp add: RedirectResponse_def)
  next
    case r: False
    from router_not_found [OF False r, of w] False r show ?thesis
      by (simp add: http_exception_def JSONResponse_def)
  qed
qed

text \<open>
  C8, a path beside the four. \<^verbatim>\<open>/docs\<close> is none of the four paths of \<^verbatim>\<open>main.py\<close>, yet a
  GET of it is answered with status 200 and not with 404, since the constructor call
  of \<^verbatim>\<open>main.py\<close> asks for the documentation at \<^verbatim>\<open>docs_url="/docs"\<close>.
\<close>

theorem docs_is_served:
  "''/docs'' \<notin> {''/'', ''/health'', ''/api/v1/analyze'', ''/api/v1/anomalies''} \<and>
   status (fst (serve app \<lparr>req_method = ''GET'', req_path = ''/docs'', req_headers = []\<rparr> ())) = 200"
  by (simp add: serve_app cors_call_def get_header_def routes_app router_def route_matches_def
      path_regex_match_def route_handle_def HTMLResponse_def)

text \<open>
  C8, for the routes as they are registered. For every request that is not a preflight:
  the status is 404 exactly when its path matches no route of the application, neither
  one of the four of \<^verbatim>\<open>main.py\<close> nor one of the documentation, and still matches none
  after its trailing slashes are taken off or, if it has none, one is added; the status
  is 307 exactly when its path matches no route but the path so changed matches one;
  when its path is one of the four and its method is not GET, the status is 405; and
  the status is never anything but 200, 307, 404 or 405.
\<close>

theorem unknown_path_and_method:
  assumes "\<not> is_preflight rq"
  shows "(status (fst (serve app rq w)) = 404 \<longleftrightarrow>
            \<not> registered app (req_path rq) \<and> \<not> registered app (redirect_path (req_path rq))) \<and>
         (status (fst (serve app rq w)) = 307 \<longleftrightarrow>
            \<not> registered app (req_path rq) \<and> registered app (redirect_path (req_path rq))) \<and>
         (req_path rq \<in> {''/'', ''/health'', ''/api/v1/analyze'', ''/api/v1/anomalies''} \<and>
          req_method rq \<noteq> ''GET'' \<longrightarrow> status (fst (serve app rq w)) = 405) \<and>
         status (fst (serve app rq w)) \<in> {200, 307, 404, 405}"
proof -
  have s: "status (fst (serve app rq w)) = status (fst (router (routes app) rq w))"
    using cors_call_not_preflight(1) [OF assms] by (simp add: serve_app)
  have a: "status (fst (router (routes app) rq w)) \<in> {200, 405}"
    if "registered app (req_path rq)"
    using that by (rule router_registered)
  have b: "status (fst (router (routes app) rq w)) = 405"
    if "req_path rq \<in> {''/'', ''/health'', ''/api/v1/analyze'', ''/api/v1/anomalies''}"
      "req_method rq \<noteq> ''GET''"
    using router_method_not_allowed [OF that(2) that(1), of w]
    by (simp add: http_exception_def JSONResponse_def)
  have c: "status (fst (router (routes app) rq w)) \<in> {200, 307, 404, 405}"
    by (rule router_status)
  show ?thesis
  proof (cases "registered app (req_path rq)")
    case True
    with a b c s show ?thesis by auto
  next
    case False
    with router_app_status [of rq w] b c s show ?thesis by auto
  qed
qed

theorem unknown_path_and_method_witness:
  "status (fst (serve app \<lparr>req_method = ''GET'', req_path = ''/nope'',
       req_headers = [(''origin'', ''http://a.example'')]\<rparr> ())) = 404 \<and>
   status (fst (serve app \<lparr>req_method = ''GET'', req_path = ''/health/'',
       req_headers = []\<rparr> ())) = 307 \<and>
   status (fst (serve app \<lparr>req_method = ''POST'', req_path = ''/health'',
       req_headers = []\<rparr> ())) = 405 \<and>
   status (fst (serve app \<lparr>req_method = ''GET'', req_path = ''/health'' @ [CHR 0x0A],
       req_headers = []\<rparr> ())) \<noteq> 404"
proof -
  have "\<not> registered app ''/nope''" "\<not> registered app (redirect_path ''/nope'')"
    "\<not> registered app ''/health/''" "registered app (redirect_path ''/health/'')"
    "registered app (''/health'' @ [CHR 0x0A])"
    by (simp_all add: registered_def routes_app path_regex_match_def redirect_path_def
        rstrip_slash_def)
  moreover have "\<not> is_preflight \<lparr>req_method = ''GET'', req_path = ''/nope'',
       req_headers = [(''origin'', ''http://a.example'')]\<rparr>"
    "\<not> is_preflight \<lparr>req_method = ''GET'', req_path = ''/health/'', req_headers = []\<rparr>"
    "\<not> is_preflight \<lparr>req_method = ''POST'', req_path = ''/health'', req_headers = []\<rparr>"
    "\<not> is_preflight \<lparr>req_method = ''GET'', req_path = ''/health'' @ [CHR 0x0A],
       req_headers = []\<rparr>"
    by (simp_all add: is_preflight_def)
  ultimately show ?thesis
    using unknown_path_and_method [of "\<lparr>req_method = ''GET'', req_path = ''/nope'',
       req_headers = [(''origin'', ''http://a.example'')]\<rparr>" "()"]
      unknown_path_and_method [of "\<lparr>req_method = ''GET'', req_path = ''/health/'',
       req_headers = []\<rparr>" "()"]
      unknown_path_and_method [of "\<lparr>req_method = ''POST'', req_path = ''/health'',
       req_headers = []\<rparr>" "()"]
      unknown_path_and_method [of "\<lparr>req_method = ''GET'', req_path = ''/health'' @ [CHR 0x0A],
       req_headers = []\<rparr>" "()"]
    by simp
qed

section \<open>Cross-origin requests\<close>

lemma get_set_header_same: "get_header k (set_header k v hs) = Some v"
  by (induction hs) (auto simp: get_header_def)

lemma map_of_filter_other: "k \<noteq> k' \<Longrightarrow> map_of (filter (\<lambda>kv. fst kv \<noteq> k') hs) k = map_of hs k"
  by (induction hs) auto

lemma get_set_header_other: "k \<noteq> k' \<Longrightarrow> get_header k (set_header k' v hs) = get_header k hs"
  by (induction hs) (auto simp: get_header_def map_of_filter_other)

lemma get_add_vary_header: "k \<noteq> ''vary'' \<Longrightarrow> get_header k (add_vary_header v hs) = get_header k hs"
  by (simp add: add_vary_header_def get_set_header_other split: option.splits)

lemma allow_all_origins_app: "allow_all_origins CORSMiddleware"
  by (simp add: CORSMiddleware_def allow_all_origins_def)

lemma simple_headers_app:
  "simple_headers CORSMiddleware =
     [(''access-control-allow-origin'', ''*''), (''access-control-allow-credentials'', ''true'')]"
  by (simp add: simple_headers_def CORSMiddleware_def allow_all_origins_def)

lemma preflight_headers_app:
  "preflight_headers CORSMiddleware =
     [(''vary'', ''Origin''),
      (''access-control-allow-methods'', ''DELETE, GET, HEAD, OPTIONS, PATCH, POST, PUT''),
      (''access-control-max-age'', ''600''),
      (''access-control-allow-credentials'', ''true'')]"
  by (simp add: preflight_headers_def CORSMiddleware_def preflight_explicit_allow_origin_def
      allow_all_origins_def allow_all_headers_def cors_methods_def ALL_METHODS_def)

text \<open>The headers of the answer to a preflight, for the arguments of \<^verbatim>\<open>main.py\<close>.\<close>

lemma preflight_response_app:
  "headers (preflight_response CORSMiddleware origin m rh) =
     (case rh of
        None \<Rightarrow> (\<lambda>hs. hs)
      | Some x \<Rightarrow> set_header ''access-control-allow-headers'' x)
       (set_header ''access-control-allow-origin'' origin (preflight_headers CORSMiddleware)) @
     [(''content-type'', ''text/plain; charset=utf-8'')]"
  by (simp add: preflight_response_def Let_def PlainTextResponse_def is_allowed_origin_def
      preflight_explicit_allow_origin_def allow_all_origins_def allow_all_headers_def
      CORSMiddleware_def split: option.splits)

lemma get_header_append: "get_header k (hs @ hs') = (case get_header k hs of None \<Rightarrow> get_header k hs' | Some v \<Rightarrow> Some v)"
  by (simp add: get_header_def map_add_def split: option.splits)

lemma preflight_cors_headers:
  "get_header ''access-control-allow-origin''
     (headers (preflight_response CORSMiddleware origin m rh)) = Some origin"
  "get_header ''access-control-allow-credentials''
     (headers (preflight_response CORSMiddleware origin m rh)) = Some ''true''"
  "get_header ''access-control-allow-methods''
     (headers (preflight_response CORSMiddleware origin m rh)) =
       Some ''DELETE, GET, HEAD, OPTIONS, PATCH, POST, PUT''"
  "rh = Some x \<Longrightarrow> get_header ''access-control-allow-headers''
     (headers (preflight_response CORSMiddleware origin m rh)) = Some x"
  by (cases rh; simp add: preflight_response_app get_header_append get_set_header_same
      get_set_header_other preflight_headers_app; simp add: get_header_def)+

lemma simple_cors_headers:
  assumes "simple_response CORSMiddleware inner origin rq w = (r, w')"
  shows "get_header ''access-control-allow-credentials'' (headers r) = Some ''true''"
    and "get_header ''access-control-allow-origin'' (headers r) =
           Some (if get_header ''cookie'' (req_headers rq) \<noteq> None then origin else ''*'')"
  using assms
  by (auto simp: simple_response_def Let_def split_beta simple_headers_app update_headers_def
      allow_explicit_origin_def get_add_vary_header get_set_header_same get_set_header_other
      allow_all_origins_app)

lemma run_endpoint_headers:
  assumes "k \<noteq> ''content-type''"
  shows "get_header k (headers (fst (run_endpoint e w))) = None"
proof (cases e)
  case (Handler h)
  with assms show ?thesis by (simp add: split_beta JSONResponse_def get_header_def)
next
  case (Docs g)
  with assms show ?thesis
    by (cases g) (simp_all add: JSONResponse_def HTMLResponse_def get_header_def)
qed

lemma router_headers:
  assumes "k \<noteq> ''content-type''"
  shows "get_header k (headers (fst (router rs rq w))) = None"
proof (cases "select_route rs (req_method rq) (req_path rq) None")
  case None
  with assms show ?thesis
    by (simp add: router_def http_exception_def JSONResponse_def RedirectResponse_def
        get_header_def)
next
  case (Some r)
  with assms show ?thesis
    using run_endpoint_headers [OF assms, of "endpoint r" w]
    by (simp add: router_def route_handle_def http_exception_def JSONResponse_def get_header_def)
qed

lemma cors_call_no_origin:
  "get_header ''origin'' (req_headers rq) = None \<Longrightarrow> cors_call c inner rq w = inner rq w"
  by (simp add: cors_call_def)

lemma preflight_status:
  "status (preflight_response CORSMiddleware origin m rh) =
     (if m \<in> {''DELETE'', ''GET'', ''HEAD'', ''OPTIONS'', ''PATCH'', ''POST'', ''PUT''}
      then 200 else 400)"
  by (simp add: preflight_response_def Let_def PlainTextResponse_def is_allowed_origin_def
      allow_all_origins_def allow_all_headers_def cors_methods_def ALL_METHODS_def
      CORSMiddleware_def split: option.splits)

text \<open>
  C6, requests that get no such headers or no leave. A request without an \<^verbatim>\<open>Origin\<close>
  header passes the middleware untouched: a GET of \<^verbatim>\<open>/\<close> without headers is answered
  without \<^verbatim>\<open>access-control-allow-origin\<close> and without
  \<^verbatim>\<open>access-control-allow-credentials\<close>. And not every method is allowed: a preflight
  that asks for the method PROPFIND on \<^verbatim>\<open>/\<close> is answered with status 400 and the text
  "Disallowed CORS method".
\<close>

theorem cors_missing_or_refused:
  "get_header ''access-control-allow-origin''
     (headers (fst (serve app \<lparr>req_method = ''GET'', req_path = ''/'', req_headers = []\<rparr> ()))) = None \<and>
   get_header ''access-control-allow-credentials''
     (headers (fst (serve app \<lparr>req_method = ''GET'', req_path = ''/'', req_headers = []\<rparr> ()))) = None \<and>
   status (fst (serve app \<lparr>req_method = ''OPTIONS'', req_path = ''/'',
       req_headers = [(''origin'', ''http://a.example''),
                      (''access-control-request-method'', ''PROPFIND'')]\<rparr> ())) = 400 \<and>
   body (fst (serve app \<lparr>req_method = ''OPTIONS'', req_path = ''/'',
       req_headers = [(''origin'', ''http://a.example''),
                      (''access-control-request-method'', ''PROPFIND'')]\<rparr> ())) =
     Text ''Disallowed CORS method''"
proof -
  have "get_header ''access-control-allow-origin''
     (headers (fst (serve app \<lparr>req_method = ''GET'', req_path = ''/'', req_headers = []\<rparr> ()))) = None"
    "get_header ''access-control-allow-credentials''
     (headers (fst (serve app \<lparr>req_method = ''GET'', req_path = ''/'', req_headers = []\<rparr> ()))) = None"
    by (simp_all add: serve_app cors_call_def get_header_def routes_app router_def
        route_matches_def path_regex_match_def route_handle_def root_def JSONResponse_def)
  moreover have "serve app \<lparr>req_method = ''OPTIONS'', req_path = ''/'',
       req_headers = [(''origin'', ''http://a.example''),
                      (''access-control-request-method'', ''PROPFIND'')]\<rparr> () =
     (preflight_response CORSMiddleware ''http://a.example'' ''PROPFIND'' None, ())"
    by (simp add: serve_app cors_call_def get_header_def)
  moreover have "body (preflight_response CORSMiddleware ''http://a.example'' ''PROPFIND'' None) =
      Text ''Disallowed CORS method''"
    by (simp add: preflight_response_def Let_def PlainTextResponse_def is_allowed_origin_def
        allow_all_origins_def allow_all_headers_def cors_methods_def ALL_METHODS_def
        CORSMiddleware_def)
  ultimately show ?thesis by (simp add: preflight_status)
qed

text \<open>
  C6, for requests with an origin. The answer to every request without an \<^verbatim>\<open>Origin\<close>
  header carries none of the four CORS headers named here. The answer to every
  request that carries an \<^verbatim>\<open>Origin\<close> header, to any path and so to each of the four
  routes, allows credentials and allows the origin: by name when the request is a
  preflight or carries a cookie, with \<^verbatim>\<open>*\<close> otherwise. The answer to a preflight moreover
  allows the methods DELETE, GET, HEAD, OPTIONS, PATCH, POST and PUT and every header
  that the preflight asks for; its status is 200 when the method asked for is one of
  these seven, and 400 when it is another.
\<close>

theorem cors_headers_with_origin:
  "(get_header ''origin'' (req_headers rq) = None \<longrightarrow>
      get_header ''access-control-allow-origin'' (headers (fst (serve app rq w))) = None \<and>
      get_header ''access-control-allow-credentials'' (headers (fst (serve app rq w))) = None \<and>
      get_header ''access-control-allow-methods'' (headers (fst (serve app rq w))) = None \<and>
      get_header ''access-control-allow-headers'' (headers (fst (serve app rq w))) = None) \<and>
   (get_header ''origin'' (req_headers rq) = Some origin \<longrightarrow>
      get_header ''access-control-allow-credentials'' (headers (fst (serve app rq w))) =
        Some ''true'' \<and>
      get_header ''access-control-allow-origin'' (headers (fst (serve app rq w))) =
        Some (if is_preflight rq \<or> get_header ''cookie'' (req_headers rq) \<noteq> None
              then origin else ''*'') \<and>
      (is_preflight rq \<longrightarrow>
         get_header ''access-control-allow-methods'' (headers (fst (serve app rq w))) =
           Some ''DELETE, GET, HEAD, OPTIONS, PATCH, POST, PUT'' \<and>
         (\<forall>x. get_header ''access-control-request-headers'' (req_headers rq) = Some x \<longrightarrow>
            get_header ''access-control-allow-headers'' (headers (fst (serve app rq w))) =
              Some x) \<and>
         (\<forall>m. get_header ''access-control-request-method'' (req_headers rq) = Some m \<longrightarrow>
            status (fst (serve app rq w)) =
              (if m \<in> {''DELETE'', ''GET'', ''HEAD'', ''OPTIONS'', ''PATCH'', ''POST'', ''PUT''}
               then 200 else 400))))"
proof (intro conjI impI)
  assume n: "get_header ''origin'' (req_headers rq) = None"
  then have r: "serve app rq w = router (routes app) rq w"
    by (simp add: serve_app cors_call_no_origin)
  show "get_header ''access-control-allow-origin'' (headers (fst (serve app rq w))) = None"
    "get_header ''access-control-allow-credentials'' (headers (fst (serve app rq w))) = None"
    "get_header ''access-control-allow-methods'' (headers (fst (serve app rq w))) = None"
    "get_header ''access-control-allow-headers'' (headers (fst (serve app rq w))) = None"
    unfolding r by (simp_all add: router_headers)
next
  assume o: "get_header ''origin'' (req_headers rq) = Some origin"
  have p: "fst (serve app rq w) =
      preflight_response CORSMiddleware origin m
        (get_header ''access-control-request-headers'' (req_headers rq))"
    if "is_preflight rq" "get_header ''access-control-request-method'' (req_headers rq) = Some m"
    for m
    using o that by (simp add: serve_app cors_call_def is_preflight_def)
  have q: "\<exists>m. get_header ''access-control-request-method'' (req_headers rq) = Some m"
    if "is_preflight rq"
    using that by (auto simp: is_preflight_def)
  have s: "simple_response CORSMiddleware (router (routes app)) origin rq w =
      (fst (serve app rq w), snd (serve app rq w))"
    if "\<not> is_preflight rq"
    using o that by (auto simp: serve_app cors_call_def is_preflight_def split: option.splits)
  show "get_header ''access-control-allow-credentials'' (headers (fst (serve app rq w))) =
      Some ''true''"
  proof (cases "is_preflight rq")
    case True
    with q p show ?thesis by (auto simp: preflight_cors_headers)
  next
    case False
    from simple_cors_headers(1) [OF s [OF False]] show ?thesis .
  qed
  show "get_header ''access-control-allow-origin'' (headers (fst (serve app rq w))) =
      Some (if is_preflight rq \<or> get_header ''cookie'' (req_headers rq) \<noteq> None
            then origin else ''*'')"
  proof (cases "is_preflight rq")
    case True
    with q p show ?thesis by (auto simp: preflight_cors_headers)
  next
    case False
    from simple_cors_headers(2) [OF s [OF False]] False show ?thesis by simp
  qed
  show "get_header ''access-control-allow-methods'' (headers (fst (serve app rq w))) =
      Some ''DELETE, GET, HEAD, OPTIONS, PATCH, POST, PUT''" if "is_preflight rq"
    using q [OF that] p [OF that] by (auto simp: preflight_cors_headers)
  show "\<forall>x. get_header ''access-control-request-headers'' (req_headers rq) = Some x \<longrightarrow>
      get_header ''access-control-allow-headers'' (headers (fst (serve app rq w))) = Some x"
    if "is_preflight rq"
    using q [OF that] p [OF that] by (auto simp: preflight_cors_headers)
  show "\<forall>m. get_header ''access-control-request-method'' (req_headers rq) = Some m \<longrightarrow>
      status (fst (serve app rq w)) =
        (if m \<in> {''DELETE'', ''GET'', ''HEAD'', ''OPTIONS'', ''PATCH'', ''POST'', ''PUT''}
         then 200 else 400)"
    if "is_preflight rq"
    using p [OF that] by (simp add: preflight_status)
qed

theorem cors_headers_with_origin_witness:
  "get_header ''access-control-allow-origin''
     (headers (fst (serve app \<lparr>req_method = ''OPTIONS'', req_path = ''/health'',
        req_headers = [(''origin'', ''http://a.example''),
                       (''access-control-request-method'', ''GET''),
                       (''access-control-request-headers'', ''x-token'')]\<rparr> ()))) =
     Some ''http://a.example'' \<and>
   get_header ''access-control-allow-headers''
     (headers (fst (serve app \<lparr>req_method = ''OPTIONS'', req_path = ''/health'',
        req_headers = [(''origin'', ''http://a.example''),
                       (''access-control-request-method'', ''GET''),
                       (''access-control-request-headers'', ''x-token'')]\<rparr> ()))) =
     Some ''x-token'' \<and>
   status (fst (serve app \<lparr>req_method = ''OPTIONS'', req_path = ''/health'',
        req_headers = [(''origin'', ''http://a.example''),
                       (''access-control-request-method'', ''GET''),
                       (''access-control-request-headers'', ''x-token'')]\<rparr> ())) = 200 \<and>
   get_header ''access-control-allow-origin''
     (headers (fst (serve app \<lparr>req_method = ''GET'', req_path = ''/health'',
        req_headers = [(''origin'', ''http://a.example'')]\<rparr> ()))) = Some ''*'' \<and>
   get_header ''access-control-allow-origin''
     (headers (fst (serve app \<lparr>req_method = ''POST'', req_path = ''/nope'',
        req_headers = [(''accept'', ''*/*'')]\<rparr> ()))) = None"
  using cors_headers_with_origin [of "\<lparr>req_method = ''OPTIONS'', req_path = ''/health'',
        req_headers = [(''origin'', ''http://a.example''),
                       (''access-control-request-method'', ''GET''),
                       (''access-control-request-headers'', ''x-token'')]\<rparr>"
        "()" "''http://a.example''"]
    cors_headers_with_origin [of "\<lparr>req_method = ''GET'', req_path = ''/health'',
        req_headers = [(''origin'', ''http://a.example'')]\<rparr>" "()" "''http://a.example''"]
    cors_headers_with_origin [of "\<lparr>req_method = ''POST'', req_path = ''/nope'',
        req_headers = [(''accept'', ''*/*'')]\<rparr>" "()"]
  by (simp add: get_header_def is_preflight_def)

end
